theory Spec2Isabelle
  imports Main "HOL-Library.Finite_Map" "HOL-Library.Char_ord" "HOL-Library.List_Lexorder"
    "HOL-Library.Sublist"
begin

section \<open>The file system underneath the program\<close>

text \<open>
  The Go sources of \<^verbatim>\<open>regolith/file_system.go\<close> and \<^verbatim>\<open>regolith/export.go\<close> act on
  the file system through the standard \<^verbatim>\<open>os\<close> and \<^verbatim>\<open>path/filepath\<close> packages.
  The file system is a tree: a regular file holds its bytes, a directory maps names to
  nodes.  A path is the list of its components below the root, so every path is
  absolute and clean (\<^verbatim>\<open>filepath.Abs\<close> and \<^verbatim>\<open>filepath.Clean\<close> are the identity, and
  \<^verbatim>\<open>filepath.Join(p, name)\<close> is \<open>p @ [name]\<close>).  There are no symbolic links and no
  permissions; the only failures of a system call are those the tree itself decides
  (a missing entry, a regular file used as a directory, a directory that is not
  empty) and a rename across two devices.
\<close>

datatype node = File string | Dir "(string, node) fmap"

type_synonym path = "string list"

datatype errno = ENOENT | ENOTDIR | EISDIR | EEXIST | ENOTEMPTY | EINVAL | EXDEV | EBUSY

fun IsDir :: "node \<Rightarrow> bool" where
  "IsDir (Dir m) = True"
| "IsDir (File c) = False"

fun fs_lookup :: "node \<Rightarrow> path \<Rightarrow> node option" where
  "fs_lookup n [] = Some n"
| "fs_lookup (File c) (x # xs) = None"
| "fs_lookup (Dir m) (x # xs) =
     (case fmlookup m x of None \<Rightarrow> None | Some n \<Rightarrow> fs_lookup n xs)"

text \<open>
  \<^verbatim>\<open>os.Stat\<close> and \<^verbatim>\<open>os.Lstat\<close>: the node found at the path, \<open>ENOENT\<close> when a
  component is missing and \<open>ENOTDIR\<close> when the path runs through a regular file.
  \<^verbatim>\<open>os.IsNotExist\<close> holds of \<open>ENOENT\<close> only.
\<close>

fun os_Stat :: "node \<Rightarrow> path \<Rightarrow> errno + node" where
  "os_Stat n [] = Inr n"
| "os_Stat (File c) (x # xs) = Inl ENOTDIR"
| "os_Stat (Dir m) (x # xs) =
     (case fmlookup m x of None \<Rightarrow> Inl ENOENT | Some n \<Rightarrow> os_Stat n xs)"

definition IsNotExist :: "errno \<Rightarrow> bool" where
  "IsNotExist e = (e = ENOENT)"

text \<open>The subtree at a path taken out of the tree, and a subtree set at a path.\<close>

fun fs_remove :: "node \<Rightarrow> path \<Rightarrow> node" where
  "fs_remove n [] = n"
| "fs_remove (File c) (x # xs) = File c"
| "fs_remove (Dir m) (x # xs) =
     (if xs = [] then Dir (fmdrop x m)
      else case fmlookup m x of
             None \<Rightarrow> Dir m
           | Some n \<Rightarrow> Dir (fmupd x (fs_remove n xs) m))"

fun fs_put :: "node \<Rightarrow> path \<Rightarrow> node \<Rightarrow> node" where
  "fs_put n [] new = new"
| "fs_put (File c) (x # xs) new = File c"
| "fs_put (Dir m) (x # xs) new =
     (if xs = [] then Dir (fmupd x new m)
      else case fmlookup m x of
             None \<Rightarrow> Dir m
           | Some n \<Rightarrow> Dir (fmupd x (fs_put n xs new) m))"

definition filepath_Dir :: "path \<Rightarrow> path" where
  "filepath_Dir p = butlast p"

text \<open>
  \<^verbatim>\<open>os.Rename\<close>.  Go refuses a new name that is an existing directory (\<open>EEXIST\<close>)
  before it calls \<^verbatim>\<open>rename(2)\<close>; the system call replaces an existing regular file,
  refuses to move a directory below itself, and fails with \<open>EXDEV\<close> when the two
  names lie on different devices.  \<open>dev\<close> gives the device of a path.
\<close>

definition os_Rename :: "(path \<Rightarrow> nat) \<Rightarrow> node \<Rightarrow> path \<Rightarrow> path \<Rightarrow> errno + node" where
  "os_Rename dev fs oldname newname =
     (case os_Stat fs oldname of
        Inl e \<Rightarrow> Inl e
      | Inr n \<Rightarrow>
          if oldname = [] \<or> newname = [] then Inl EBUSY
          else (case os_Stat fs newname of
                  Inr (Dir d) \<Rightarrow> Inl EEXIST
                | Inr (File c) \<Rightarrow>
                    if IsDir n then Inl ENOTDIR
                    else if oldname = newname then Inr fs
                    else if dev oldname \<noteq> dev newname then Inl EXDEV
                    else Inr (fs_put (fs_remove fs oldname) newname n)
                | Inl e \<Rightarrow>
                    (case os_Stat fs (filepath_Dir newname) of
                       Inl e' \<Rightarrow> Inl e'
                     | Inr (File c) \<Rightarrow> Inl ENOTDIR
                     | Inr (Dir d) \<Rightarrow>
                         if prefix oldname newname then Inl EINVAL
                         else if dev oldname \<noteq> dev newname then Inl EXDEV
                         else Inr (fs_put (fs_remove fs oldname) newname n))))"

text \<open>\<^verbatim>\<open>os.MkdirAll\<close>: succeeds unless the path or one of its ancestors is a regular file.\<close>

fun os_MkdirAll :: "node \<Rightarrow> path \<Rightarrow> errno + node" where
  "os_MkdirAll (Dir m) [] = Inr (Dir m)"
| "os_MkdirAll (File c) xs = Inl ENOTDIR"
| "os_MkdirAll (Dir m) (x # xs) =
     (case os_MkdirAll (case fmlookup m x of None \<Rightarrow> Dir fmempty | Some n \<Rightarrow> n) xs of
        Inl e \<Rightarrow> Inl e
      | Inr n' \<Rightarrow> Inr (Dir (fmupd x n' m)))"

text \<open>\<^verbatim>\<open>os.Remove\<close> takes a regular file or an empty directory.\<close>

definition os_Remove :: "node \<Rightarrow> path \<Rightarrow> errno + node" where
  "os_Remove fs name =
     (case os_Stat fs name of
        Inl e \<Rightarrow> Inl e
      | Inr (File c) \<Rightarrow> Inr (fs_remove fs name)
      | Inr (Dir d) \<Rightarrow>
          if name = [] then Inl EBUSY
          else if d = fmempty then Inr (fs_remove fs name)
          else Inl ENOTEMPTY)"

text \<open>
  \<^verbatim>\<open>os.RemoveAll\<close> removes the path and everything below it and returns \<^verbatim>\<open>nil\<close> for
  a path that does not exist.  The root itself cannot be removed: its entries go and
  the call fails.
\<close>

definition os_RemoveAll :: "node \<Rightarrow> path \<Rightarrow> errno option \<times> node" where
  "os_RemoveAll fs name =
     (case os_Stat fs name of
        Inl e \<Rightarrow> if IsNotExist e then (None, fs) else (Some e, fs)
      | Inr n \<Rightarrow>
          if name = [] then (case n of File c \<Rightarrow> (Some EBUSY, fs) | Dir d \<Rightarrow> (Some EBUSY, Dir fmempty))
          else (None, fs_remove fs name))"

text \<open>\<^verbatim>\<open>os.Create\<close> makes or truncates a regular file in an existing directory.\<close>

definition os_Create :: "node \<Rightarrow> path \<Rightarrow> errno + node" where
  "os_Create fs name =
     (if name = [] then Inl EISDIR
      else case os_Stat fs (filepath_Dir name) of
             Inl e \<Rightarrow> Inl e
           | Inr (File c) \<Rightarrow> Inl ENOTDIR
           | Inr (Dir d) \<Rightarrow>
               (case os_Stat fs name of
                  Inr (Dir d') \<Rightarrow> Inl EISDIR
                | _ \<Rightarrow> Inr (fs_put fs name (File ''''))))"

text \<open>\<^verbatim>\<open>File.Readdirnames\<close> followed by \<^verbatim>\<open>sort.Strings\<close>; a regular file has no names.\<close>

fun Readdirnames :: "node \<Rightarrow> string list" where
  "Readdirnames (Dir m) = sorted_list_of_fset (fmdom m)"
| "Readdirnames (File c) = []"

section \<open>Errors\<close>

text \<open>
  An error of the program is a message with its arguments, wrapped around the error
  that caused it (\<^verbatim>\<open>WrapErrorf\<close>, \<^verbatim>\<open>WrappedErrorf\<close>, \<^verbatim>\<open>WrapError\<close> of
  \<^verbatim>\<open>regolith/utils.go\<close>).  The message constants are declared outside the files at
  hand and are kept by name.  \<^verbatim>\<open>PassError\<close> only adds a stack trace.
\<close>

datatype message =
    filepathAbsError | osStatErrorAny | osStatErrorIsNotExist | osStatExistsError
  | osMkdirError | osRenameError | osOpenError | osCreateError | osRemoveError
  | osCopyError | osWalkError | osRelError | fileReadError | fileWriteError
  | isDirEmptyError | isDirNotADirError | assertEmptyOrNewDirError
  | revertableFsOperationsDeleteError | moveOrCopyError | notRegolithFileError
  | Text string

datatype arg = P path | S string

datatype error = Errno errno | Wrapped message "arg list" "error option" | Panic

definition WrapErrorf :: "error \<Rightarrow> message \<Rightarrow> arg list \<Rightarrow> error" where
  "WrapErrorf err text args = Wrapped text args (Some err)"

definition WrappedErrorf :: "message \<Rightarrow> arg list \<Rightarrow> error" where
  "WrappedErrorf text args = Wrapped text args None"


definition PassError :: "error \<Rightarrow> error" where
  "PassError err = err"

section \<open>Copying and moving single files\<close>

definition copyFileBufferSize :: nat where
  "copyFileBufferSize = 1000000"

text \<open>
  The loop of \<^verbatim>\<open>CopyFile\<close>: read at most one buffer from the source at the current
  offset, stop when nothing was read, otherwise append what was read to the target.
\<close>

function copy_chunks :: "string \<Rightarrow> nat \<Rightarrow> string \<Rightarrow> string" where
  "copy_chunks c off t =
     (let n = min copyFileBufferSize (length c - off)
      in if n = 0 then t else copy_chunks c (off + n) (t @ take n (drop off c)))"
  by pat_completeness auto
termination
  by (relation "measure (\<lambda>(c, off, t). length c - off)") (auto simp: copyFileBufferSize_def)

declare copy_chunks.simps [simp del]

text \<open>
  \<^verbatim>\<open>CopyFile\<close>.  The source is read through the handle opened before the target is
  created, so the bytes copied are those the source holds once the target exists
  (none when source and target are the same file).  Reading a directory fails, after
  the target has been created.
\<close>

definition CopyFile :: "path \<Rightarrow> path \<Rightarrow> node \<Rightarrow> error option \<times> node" where
  "CopyFile source target fs =
     (case os_MkdirAll fs (filepath_Dir target) of
        Inl e \<Rightarrow> (Some (WrapErrorf (Errno e) osMkdirError [P target]), fs)
      | Inr fs1 \<Rightarrow>
          (case os_Stat fs1 source of
             Inl e \<Rightarrow> (Some (WrapErrorf (Errno e) osOpenError [P source]), fs1)
           | Inr sourceF \<Rightarrow>
               (case os_Create fs1 target of
                  Inl e \<Rightarrow> (Some (WrapErrorf (Errno e) osCreateError [P target]), fs1)
                | Inr fs2 \<Rightarrow>
                    (case fs_lookup fs2 source of
                       Some (File c) \<Rightarrow> (None, fs_put fs2 target (File (copy_chunks c 0 '''')))
                     | _ \<Rightarrow> (Some (WrapErrorf (Errno EISDIR) fileReadError [P source]), fs2)))))"

text \<open>
  \<^verbatim>\<open>ForceMoveFile\<close>: rename, and when that fails rebuild the source at the target
  and remove the source.  For a directory the result of \<^verbatim>\<open>os.Remove(source)\<close> is
  dropped (the test after it reads the \<^verbatim>\<open>err\<close> of \<^verbatim>\<open>os.MkdirAll\<close>).
\<close>

definition ForceMoveFile :: "(path \<Rightarrow> nat) \<Rightarrow> path \<Rightarrow> path \<Rightarrow> node \<Rightarrow> error option \<times> node" where
  "ForceMoveFile dev source target fs =
     (case os_Rename dev fs source target of
        Inr fs' \<Rightarrow> (None, fs')
      | Inl e0 \<Rightarrow>
          (case os_Stat fs source of
             Inl e \<Rightarrow> (Some (WrapErrorf (Errno e) osStatErrorAny [P source]), fs)
           | Inr stat \<Rightarrow>
               (case (if IsDir stat then
                        (case os_MkdirAll fs target of
                           Inl e \<Rightarrow> (Some (WrapErrorf (Errno e) osMkdirError [P target]), fs)
                         | Inr fs1 \<Rightarrow>
                             (None, case os_Remove fs1 source of Inl e \<Rightarrow> fs1 | Inr fs2 \<Rightarrow> fs2))
                      else
                        (case CopyFile source target fs of
                           (Some err, fs1) \<Rightarrow>
                             (Some (WrapErrorf err osCopyError [P source, P target]), fs1)
                         | (None, fs1) \<Rightarrow> (None, fs1))) of
                  (Some err, fs1) \<Rightarrow> (Some err, fs1)
                | (None, fs1) \<Rightarrow>
                    (case os_RemoveAll fs1 source of
                       (Some e, fs2) \<Rightarrow>
                         (Some (WrapErrorf (Errno e) (Text ''Failed to remove file copied.'') []), fs2)
                     | (None, fs2) \<Rightarrow> (None, fs2)))))"

section \<open>The revertable operations\<close>

text \<open>
  The closures pushed on \<^verbatim>\<open>undoOperations\<close> are kept as data: which closure it is
  and the variables it captured.
\<close>

datatype undo =
    UndoDelete path path
  | UndoMkdirAll path
  | UndoMove path path
  | UndoCopy path

record RevertableFsOperations =
  undoOperations :: "undo list"
  backupPath :: path
  backupFileCounter :: int

text \<open>\<^verbatim>\<open>strconv.Itoa\<close>: the decimal digits of an integer.\<close>

definition digit_char :: "nat \<Rightarrow> char" where
  "digit_char d = ''0123456789'' ! (d mod 10)"

function digits :: "nat \<Rightarrow> string" where
  "digits n = (if n < 10 then [digit_char n] else digits (n div 10) @ [digit_char (n mod 10)])"
  by pat_completeness auto
termination
  by (relation "measure id") auto

declare digits.simps [simp del]

definition Itoa :: "int \<Rightarrow> string" where
  "Itoa i = (if i < 0 then ''-'' @ digits (nat (- i)) else digits (nat i))"

text \<open>\<^verbatim>\<open>filepath.Split\<close> gives the last component as the file name (empty for the root).\<close>

definition filepath_Split_file :: "path \<Rightarrow> string" where
  "filepath_Split_file base = (if base = [] then '''' else last base)"

definition getTempFilePath :: "RevertableFsOperations \<Rightarrow> path \<Rightarrow> path" where
  "getTempFilePath r base =
     (let file = filepath_Split_file base
      in backupPath r @ [Itoa (backupFileCounter r) @ ''_'' @ file])"

definition Delete ::
  "(path \<Rightarrow> nat) \<Rightarrow> path \<Rightarrow> RevertableFsOperations \<times> node
     \<Rightarrow> error option \<times> RevertableFsOperations \<times> node" where
  "Delete dev path = (\<lambda>(r, fs).
     (case os_Stat fs path of
        Inl e \<Rightarrow>
          if IsNotExist e then (None, r, fs)
          else (Some (WrapErrorf (Errno e) osStatErrorAny [P path]), r, fs)
      | Inr stat \<Rightarrow>
          (let tmpPath = getTempFilePath r path in
           case ForceMoveFile dev path tmpPath fs of
             (Some err, fs') \<Rightarrow>
               (Some (WrapErrorf err (Text ''Failed to move the file to the backup location.'')
                        [P path, P tmpPath]), r, fs')
           | (None, fs') \<Rightarrow>
               (None, r\<lparr>undoOperations := undoOperations r @ [UndoDelete tmpPath path]\<rparr>, fs'))))"


text \<open>
  \<^verbatim>\<open>GetFirstUnexistingSubpath\<close>: the loop joins the parts of the path one at a
  time and stats each ancestor, the path itself last.  The triple it returns is a
  sum here: the error, or the path with the flag \<^verbatim>\<open>found\<close>.
\<close>

fun firstUnexisting_loop :: "node \<Rightarrow> path \<Rightarrow> path \<Rightarrow> string list \<Rightarrow> error + (path \<times> bool)" where
  "firstUnexisting_loop fs path currPath [] = Inr ([], False)"
| "firstUnexisting_loop fs path currPath (part # pathParts) =
     (let currPath = currPath @ [part] in
      case os_Stat fs currPath of
        Inl e \<Rightarrow>
          if IsNotExist e then Inr (currPath, True)
          else firstUnexisting_loop fs path currPath pathParts
      | Inr stat \<Rightarrow>
          if \<not> IsDir stat then
            Inl (WrappedErrorf (Text ''Found a subpath that is not a directory.'')
                   [P currPath, P path])
          else firstUnexisting_loop fs path currPath pathParts)"

definition GetFirstUnexistingSubpath :: "node \<Rightarrow> path \<Rightarrow> error + (path \<times> bool)" where
  "GetFirstUnexistingSubpath fs path = firstUnexisting_loop fs path [] path"

definition IsDirEmpty :: "node \<Rightarrow> path \<Rightarrow> error + bool" where
  "IsDirEmpty fs path =
     (case os_Stat fs path of
        Inl e \<Rightarrow>
          if IsNotExist e then Inl (WrappedErrorf osStatErrorIsNotExist [P path])
          else Inl (WrapErrorf (Errno e) osStatErrorAny [P path])
      | Inr stat \<Rightarrow>
          if \<not> IsDir stat then Inl (WrappedErrorf isDirNotADirError [P path])
          else Inr (Readdirnames stat = []))"

definition moveOrCopyAssertions :: "node \<Rightarrow> path \<Rightarrow> path \<Rightarrow> error option" where
  "moveOrCopyAssertions fs source target =
     (case os_Stat fs source of
        Inl e \<Rightarrow>
          if IsNotExist e then Some (WrapErrorf (Errno e) osStatErrorIsNotExist [P source])
          else Some (WrapErrorf (Errno e) osStatErrorAny [P source])
      | Inr s \<Rightarrow>
          (case os_Stat fs target of
             Inr stat \<Rightarrow> Some (WrappedErrorf osStatExistsError [P target])
           | Inl e \<Rightarrow>
               if \<not> IsNotExist e then Some (WrapErrorf (Errno e) osStatErrorAny [P target])
               else None))"

type_synonym world = "RevertableFsOperations \<times> node"

definition move :: "(path \<Rightarrow> nat) \<Rightarrow> path \<Rightarrow> path \<Rightarrow> world \<Rightarrow> error option \<times> world" where
  "move dev source target = (\<lambda>(r, fs).
     (case os_MkdirAll fs (filepath_Dir target) of
        Inl e \<Rightarrow> (Some (WrapErrorf (Errno e) osMkdirError [P target]), r, fs)
      | Inr fs1 \<Rightarrow>
          (case os_Rename dev fs1 source target of
             Inl e \<Rightarrow> (Some (WrapErrorf (Errno e) osRenameError [P source, P target]), r, fs1)
           | Inr fs2 \<Rightarrow>
               (None, r\<lparr>undoOperations := undoOperations r @ [UndoMove source target]\<rparr>, fs2))))"

definition copy :: "path \<Rightarrow> path \<Rightarrow> world \<Rightarrow> error option \<times> world" where
  "copy source target = (\<lambda>(r, fs).
     (case CopyFile source target fs of
        (Some err, fs1) \<Rightarrow> (Some (PassError err), r, fs1)
      | (None, fs1) \<Rightarrow>
          (None, r\<lparr>undoOperations := undoOperations r @ [UndoCopy target]\<rparr>, fs1)))"



definition MoveOrCopy :: "(path \<Rightarrow> nat) \<Rightarrow> path \<Rightarrow> path \<Rightarrow> world \<Rightarrow> error option \<times> world" where
  "MoveOrCopy dev source target = (\<lambda>(r, fs).
     (case moveOrCopyAssertions fs source target of
        Some err \<Rightarrow> (Some (PassError err), r, fs)
      | None \<Rightarrow>
          (case move dev source target (r, fs) of
             (Some err, w) \<Rightarrow>
               (case copy source target w of
                  (Some err', w') \<Rightarrow> (Some (PassError err'), w')
                | (None, w') \<Rightarrow> (None, w'))
           | (None, w) \<Rightarrow> (None, w))))"

definition MkdirAll :: "path \<Rightarrow> world \<Rightarrow> error option \<times> world" where
  "MkdirAll path = (\<lambda>(r, fs).
     (let fullPath = path in
      case GetFirstUnexistingSubpath fs fullPath of
        Inl err \<Rightarrow>
          (Some (WrapErrorf err
                   (Text ''Failed to define an undo operation for creating nested directories.'')
                   [P path]), r, fs)
      | Inr (undoPath, found) \<Rightarrow>
          if found then
            (case os_MkdirAll fs fullPath of
               Inl e \<Rightarrow> (Some (PassError (Errno e)), r, fs)
             | Inr fs' \<Rightarrow>
                 (None, r\<lparr>undoOperations := undoOperations r @ [UndoMkdirAll undoPath]\<rparr>, fs'))
          else (None, r, fs)))"

text \<open>The bodies of the four closures.\<close>

fun run_undo :: "(path \<Rightarrow> nat) \<Rightarrow> undo \<Rightarrow> node \<Rightarrow> error option \<times> node" where
  "run_undo dev (UndoDelete tmpPath path) fs =
     (case ForceMoveFile dev tmpPath path fs of
        (Some err, fs') \<Rightarrow>
          (Some (WrapErrorf err (Text ''Failed to forcefully move file.'') [P tmpPath, P path]), fs')
      | (None, fs') \<Rightarrow> (None, fs'))"
| "run_undo dev (UndoMkdirAll undoPath) fs =
     (case os_RemoveAll fs undoPath of
        (Some e, fs') \<Rightarrow> (Some (PassError (Errno e)), fs')
      | (None, fs') \<Rightarrow> (None, fs'))"
| "run_undo dev (UndoMove source target) fs =
     (case os_Rename dev fs target source of
        Inl e \<Rightarrow> (Some (Errno e), fs)
      | Inr fs' \<Rightarrow> (None, fs'))"
| "run_undo dev (UndoCopy target) fs =
     (case os_Remove fs target of
        Inl e \<Rightarrow> (Some (Errno e), fs)
      | Inr fs' \<Rightarrow> (None, fs'))"




text \<open>A path that holds a directory.\<close>

definition is_dir :: "node \<Rightarrow> path \<Rightarrow> bool" where
  "is_dir fs p = (case fs_lookup fs p of Some (Dir m) \<Rightarrow> True | _ \<Rightarrow> False)"


section \<open>Walking a directory\<close>

text \<open>
  \<^verbatim>\<open>PostorderWalkDir\<close> and \<^verbatim>\<open>postorderWalkDir\<close>.  The walk function may change
  the file system, and the walk reads the directory entries and stats the paths in
  the state it finds when it gets there, so the recursion is not bounded by the tree
  the walk started in.  \<open>fuel\<close> bounds the depth of the recursion; a walk that runs
  out of it gives \<open>None\<close>.  The state of a walk is the state of the walk function
  together with the file system.
\<close>

type_synonym 's WalkFunc =
  "path \<Rightarrow> node option \<Rightarrow> error option \<Rightarrow> 's \<times> node \<Rightarrow> error option \<times> 's \<times> node"

fun postorderWalkDir ::
    "nat \<Rightarrow> path \<Rightarrow> node \<Rightarrow> 's WalkFunc \<Rightarrow> 's \<times> node \<Rightarrow> (error option \<times> 's \<times> node) option"
  and walk_subdirs ::
    "nat \<Rightarrow> path \<Rightarrow> string list \<Rightarrow> 's WalkFunc \<Rightarrow> 's \<times> node \<Rightarrow> (error option \<times> 's \<times> node) option"
where
  "postorderWalkDir 0 path info fn w = None"
| "postorderWalkDir (Suc fuel) path info fn w =
     (case os_Stat (snd w) path of
        Inl e \<Rightarrow> Some (fn path (Some info) (Some (Errno e)) w)
      | Inr f \<Rightarrow> walk_subdirs fuel path (Readdirnames f) fn w)"
| "walk_subdirs fuel path [] fn w = Some (None, w)"
| "walk_subdirs fuel path (subdir # subdirs) fn w =
     (let subpath = path @ [subdir] in
      case os_Stat (snd w) subpath of
        Inl e \<Rightarrow>
          (case fn subpath None (Some (Errno e)) w of
             (Some err, w1) \<Rightarrow> Some (Some err, w1)
           | (None, w1) \<Rightarrow>
               (case fn subpath None None w1 of
                  (Some err, w2) \<Rightarrow> Some (Some err, w2)
                | (None, w2) \<Rightarrow> walk_subdirs fuel path subdirs fn w2))
      | Inr stat \<Rightarrow>
          (case postorderWalkDir fuel subpath stat fn w of
             None \<Rightarrow> None
           | Some (Some err, w1) \<Rightarrow> Some (Some err, w1)
           | Some (None, w1) \<Rightarrow>
               (case fn subpath (Some stat) None w1 of
                  (Some err, w2) \<Rightarrow> Some (Some err, w2)
                | (None, w2) \<Rightarrow> walk_subdirs fuel path subdirs fn w2)))"

definition PostorderWalkDir ::
    "nat \<Rightarrow> path \<Rightarrow> 's WalkFunc \<Rightarrow> 's \<times> node \<Rightarrow> (error option \<times> 's \<times> node) option" where
  "PostorderWalkDir fuel root fn w =
     (case os_Stat (snd w) root of
        Inl e \<Rightarrow> Some (fn root None (Some (Errno e)) w)
      | Inr info \<Rightarrow>
          if IsDir info then postorderWalkDir fuel root info fn w
          else Some (fn root (Some info) None w))"

text \<open>\<^verbatim>\<open>filepath.Rel\<close> and \<^verbatim>\<open>filepath.Join\<close> on component lists.\<close>

definition filepath_Rel :: "path \<Rightarrow> path \<Rightarrow> path" where
  "filepath_Rel basepath targpath =
     (let k = length (longest_common_prefix basepath targpath)
      in replicate (length basepath - k) ''..'' @ drop k targpath)"

fun filepath_Join :: "path \<Rightarrow> path \<Rightarrow> path" where
  "filepath_Join p [] = p"
| "filepath_Join p (c # cs) = filepath_Join (if c = ''..'' then butlast p else p @ [c]) cs"

definition DeleteDir_deleteFunc :: "(path \<Rightarrow> nat) \<Rightarrow> RevertableFsOperations WalkFunc" where
  "DeleteDir_deleteFunc dev currPath info err w =
     (case Delete dev currPath w of
        (Some err', w') \<Rightarrow> (Some (WrapErrorf err' revertableFsOperationsDeleteError [P currPath]), w')
      | (None, w') \<Rightarrow> (None, w'))"

definition DeleteDir ::
    "nat \<Rightarrow> (path \<Rightarrow> nat) \<Rightarrow> path \<Rightarrow> world \<Rightarrow> (error option \<times> world) option" where
  "DeleteDir fuel dev path = (\<lambda>(r, fs).
     (case os_Stat fs path of
        Inr (File c) \<Rightarrow>
          (case Delete dev path (r, fs) of
             (Some err, w') \<Rightarrow> Some (Some (WrapErrorf err revertableFsOperationsDeleteError [P path]), w')
           | (None, w') \<Rightarrow> Some (None, w'))
      | _ \<Rightarrow>
          (case PostorderWalkDir fuel path (DeleteDir_deleteFunc dev) (r, fs) of
             None \<Rightarrow> None
           | Some (Some err, w1) \<Rightarrow> Some (Some (PassError err), w1)
           | Some (None, (r1, fs1)) \<Rightarrow>
               (case os_Stat fs1 path of
                  Inl e \<Rightarrow> Some (Some (WrapErrorf (Errno e) osStatErrorAny [P path]), r1, fs1)
                | Inr stat \<Rightarrow>
                    (case DeleteDir_deleteFunc dev path (Some stat) None (r1, fs1) of
                       (Some err, w2) \<Rightarrow> Some (Some (PassError err), w2)
                     | (None, w2) \<Rightarrow> Some (None, w2))))))"

definition MoveoOrCopyDir_walkFunc ::
    "(path \<Rightarrow> nat) \<Rightarrow> path \<Rightarrow> path \<Rightarrow> RevertableFsOperations WalkFunc" where
  "MoveoOrCopyDir_walkFunc dev source target currSourcePath info err = (\<lambda>(r, fs).
     (let sourceRelativePath = filepath_Rel source currSourcePath;
          currTargetPath = filepath_Join target sourceRelativePath
      in case info of
           None \<Rightarrow> (Some Panic, r, fs)
         | Some i \<Rightarrow>
             if IsDir i then
               (case MkdirAll currTargetPath (r, fs) of
                  (Some err', w) \<Rightarrow> (Some (WrapErrorf err' osMkdirError [P currTargetPath]), w)
                | (None, (r1, fs1)) \<Rightarrow>
                    (case os_Remove fs1 currSourcePath of
                       Inl e \<Rightarrow> (Some (WrapErrorf (Errno e) osRemoveError [P currSourcePath]), r1, fs1)
                     | Inr fs2 \<Rightarrow> (None, r1, fs2)))
             else
               (case MoveOrCopy dev currSourcePath currTargetPath (r, fs) of
                  (Some err', w) \<Rightarrow>
                    (Some (WrapErrorf err' moveOrCopyError [P currSourcePath, P currTargetPath]), w)
                | (None, w) \<Rightarrow> (None, w))))"

definition MoveoOrCopyDir ::
    "nat \<Rightarrow> (path \<Rightarrow> nat) \<Rightarrow> path \<Rightarrow> path \<Rightarrow> world \<Rightarrow> (error option \<times> world) option" where
  "MoveoOrCopyDir fuel dev source target = (\<lambda>(r, fs).
     (let fullTargetPath = target in
      case (case os_Stat fs fullTargetPath of
              Inl e \<Rightarrow>
                if \<not> IsNotExist e
                then Some (WrapErrorf (Errno e) assertEmptyOrNewDirError [P target])
                else None
            | Inr stat \<Rightarrow>
                if \<not> IsDir stat
                then Some (WrappedErrorf assertEmptyOrNewDirError [P fullTargetPath])
                else (case IsDirEmpty fs fullTargetPath of
                        Inl err \<Rightarrow>
                          Some (WrapErrorf err assertEmptyOrNewDirError [P fullTargetPath])
                      | Inr emptyDir \<Rightarrow>
                          if \<not> emptyDir
                          then Some (WrappedErrorf assertEmptyOrNewDirError [P fullTargetPath])
                          else None)) of
        Some err \<Rightarrow> Some (Some err, r, fs)
      | None \<Rightarrow>
          (case PostorderWalkDir fuel source (MoveoOrCopyDir_walkFunc dev source target) (r, fs) of
             None \<Rightarrow> None
           | Some (Some err, w) \<Rightarrow> Some (Some (PassError err), w)
           | Some (None, w) \<Rightarrow> Some (None, w))))"


section \<open>Sequences of operations on a transaction\<close>







section \<open>A small file system for the examples\<close>

definition dev0 :: "path \<Rightarrow> nat" where
  "dev0 p = 0"

definition fs0 :: node where
  "fs0 = Dir (fmap_of_list
     [(''a'', Dir (fmap_of_list [(''x'', File ''1'')])),
      (''b'', Dir (fmap_of_list [(''x'', File ''2'')])),
      (''backup'', Dir fmempty)])"

definition r0 :: RevertableFsOperations where
  "r0 = \<lparr>undoOperations = [], backupPath = [''backup''], backupFileCounter = 0\<rparr>"

definition dev_mnt :: "path \<Rightarrow> nat" where
  "dev_mnt p = (if prefix [''mnt''] p then 1 else 0)"

definition fs_mnt :: node where
  "fs_mnt = Dir (fmap_of_list
     [(''a'', Dir (fmap_of_list [(''x'', File ''1'')])),
      (''mnt'', Dir fmempty),
      (''backup'', Dir fmempty)])"




definition fs_tree :: node where
  "fs_tree = Dir (fmap_of_list
     [(''src'', Dir (fmap_of_list
         [(''b'', Dir (fmap_of_list [(''c.txt'', File ''cc''), (''a.txt'', File ''aa'')])),
          (''a.txt'', File ''top''),
          (''e'', Dir fmempty)])),
      (''out'', Dir fmempty),
      (''backup'', Dir fmempty)])"


section \<open>Facts about the file system\<close>

lemma os_Stat_Inr_iff: "os_Stat fs p = Inr n \<longleftrightarrow> fs_lookup fs p = Some n"
  by (induction fs p rule: fs_lookup.induct) (auto split: option.splits)

lemma os_Stat_Inl_iff: "(\<exists>e. os_Stat fs p = Inl e) \<longleftrightarrow> fs_lookup fs p = None"
  by (induction fs p rule: fs_lookup.induct) (auto split: option.splits)

lemma Itoa_0: "Itoa 0 = ''0''"
  by (simp add: Itoa_def digits.simps[of 0] digit_char_def)

lemma fmupd_same_value: "fmlookup m k = Some v \<Longrightarrow> fmupd k v m = m"
  by (rule fmap_ext) auto

lemma fmdrop_fmupd_absent: "fmlookup m k = None \<Longrightarrow> fmdrop k (fmupd k v m) = m"
  by (rule fmap_ext) auto

lemma fs_lookup_append:
  "fs_lookup fs p = Some n \<Longrightarrow> fs_lookup fs (p @ q) = fs_lookup n q"
  by (induction fs p rule: fs_lookup.induct) (auto split: option.splits)

lemma os_Stat_append:
  "fs_lookup fs p = Some n \<Longrightarrow> os_Stat fs (p @ q) = os_Stat n q"
  by (induction fs p rule: fs_lookup.induct) (auto split: option.splits)

lemma fs_lookup_prefix_exists:
  "fs_lookup fs (p @ q) = Some n \<Longrightarrow> \<exists>n'. fs_lookup fs p = Some n'"
  by (induction fs p rule: fs_lookup.induct) (auto split: option.splits)


lemma os_MkdirAll_is_dir:
  "os_MkdirAll fs p = Inr fs' \<Longrightarrow> \<exists>m. fs_lookup fs' p = Some (Dir m)"
  by (induction fs p arbitrary: fs' rule: os_MkdirAll.induct) (auto split: sum.splits option.splits)




lemma is_dir_iff: "is_dir fs p \<longleftrightarrow> (\<exists>m. fs_lookup fs p = Some (Dir m))"
  by (auto simp: is_dir_def split: option.splits node.splits)

lemma fmdrop_absent: "fmlookup m k = None \<Longrightarrow> fmdrop k m = m"
  by (rule fmap_ext) auto


lemma fs_remove_absent: "fs_lookup fs p = None \<Longrightarrow> fs_remove fs p = fs"
  by (induction fs p rule: fs_remove.induct)
     (auto simp: fmdrop_absent fmupd_same_value split: option.splits)


lemma fs_lookup_remove_other:
  "\<not> prefix p q \<Longrightarrow> \<not> prefix q p \<Longrightarrow> fs_lookup (fs_remove fs p) q = fs_lookup fs q"
proof (induction fs p arbitrary: q rule: fs_remove.induct)
  case (1 n)
  then show ?case by simp
next
  case (2 c x xs)
  then show ?case by simp
next
  case (3 m x xs)
  then obtain y ys where q: "q = y # ys" by (cases q) auto
  show ?case
  proof (cases "y = x")
    case True
    with 3 q show ?thesis by (auto split: option.splits)
  next
    case False
    with q show ?thesis by (auto split: option.splits)
  qed
qed



lemma fs_lookup_put_self:
  "is_dir fs (butlast p) \<Longrightarrow> fs_lookup (fs_put fs p n) (p @ q) = fs_lookup n q"
proof (induction fs p n rule: fs_put.induct)
  case (3 m x xs new)
  then show ?case by (cases "xs = []") (auto simp: is_dir_iff split: option.splits)
qed (auto simp: is_dir_iff split: if_splits)

lemma fs_lookup_put_other:
  "\<not> prefix p q \<Longrightarrow> \<not> prefix q p \<Longrightarrow> fs_lookup (fs_put fs p n) q = fs_lookup fs q"
proof (induction fs p n arbitrary: q rule: fs_put.induct)
  case (3 m x xs new)
  then obtain y ys where q: "q = y # ys" by (cases q) auto
  with 3 show ?case by (cases "y = x") (auto split: option.splits)
qed auto

lemma is_dir_put:
  "is_dir fs q \<Longrightarrow> \<not> prefix p q \<Longrightarrow> is_dir (fs_put fs p n) q"
proof (induction fs p n arbitrary: q rule: fs_put.induct)
  case (3 m x xs new)
  show ?case
  proof (cases q)
    case Nil
    then show ?thesis by (auto simp: is_dir_iff split: option.splits)
  next
    case (Cons y ys)
    with 3 show ?thesis by (cases "y = x") (auto simp: is_dir_iff split: option.splits)
  qed
qed (auto simp: is_dir_iff)


lemma fs_remove_put_id:
  "fs_lookup fs p = None \<Longrightarrow> fs_remove (fs_put fs p n) p = fs"
proof (induction fs p n rule: fs_put.induct)
  case (3 m x xs new)
  then show ?case
    by (cases "xs = []") (auto simp: fmdrop_fmupd_absent fmupd_same_value split: option.splits)
qed auto



lemma not_prefix_butlast: "s \<noteq> [] \<Longrightarrow> \<not> prefix s (butlast s)"
proof
  assume ne: "s \<noteq> []" and pre: "prefix s (butlast s)"
  from prefix_length_le [OF pre] have "length s \<le> length (butlast s)" .
  with ne show False by (cases s rule: rev_cases) auto
qed






lemma copy_chunks_eq: "copy_chunks c off t = t @ drop off c"
proof (induction c off t rule: copy_chunks.induct)
  case (1 c off t)
  show ?case
  proof (cases "min copyFileBufferSize (length c - off) = 0")
    case True
    then have "length c \<le> off"
      by (auto simp: copyFileBufferSize_def min_def split: if_splits)
    moreover have "copy_chunks c off t = t"
      by (subst copy_chunks.simps) (simp only: Let_def True, simp)
    ultimately show ?thesis by simp
  next
    case False
    define k where "k = min copyFileBufferSize (length c - off)"
    have "copy_chunks c off t = copy_chunks c (off + k) (t @ take k (drop off c))"
      by (subst copy_chunks.simps) (simp only: Let_def k_def [symmetric] False [folded k_def] if_False)
    also have "\<dots> = (t @ take k (drop off c)) @ drop (off + k) c"
      using 1 [of k] False by (simp add: k_def)
    also have "\<dots> = t @ drop off c"
      by (simp add: add.commute [of off k] drop_drop [symmetric] del: drop_drop)
    finally show ?thesis .
  qed
qed

lemma fs_put_put: "fs_put (fs_put fs p a) p b = fs_put fs p b"
  by (induction fs p a rule: fs_put.induct) (auto split: option.splits)

lemma os_MkdirAll_id: "is_dir fs p \<Longrightarrow> os_MkdirAll fs p = Inr fs"
proof (induction fs p rule: os_MkdirAll.induct)
  case (3 m x xs)
  then show ?case
    by (auto simp: is_dir_iff fmupd_same_value split: option.splits)
next
  case (2 c xs)
  then show ?case by (cases xs) (auto simp: is_dir_iff)
qed (auto simp: is_dir_iff)

lemma os_MkdirAll_keeps_file:
  "os_MkdirAll fs p = Inr fs' \<Longrightarrow> fs_lookup fs q = Some (File c) \<Longrightarrow>
   fs_lookup fs' q = Some (File c)"
proof (induction fs p arbitrary: fs' q rule: os_MkdirAll.induct)
  case (3 m x xs)
  from "3.prems"(2) obtain y ys where q: "q = y # ys" by (cases q) auto
  from "3.prems"(1) obtain n' where
    mk: "os_MkdirAll (case fmlookup m x of None \<Rightarrow> Dir fmempty | Some n \<Rightarrow> n) xs = Inr n'"
    and fs': "fs' = Dir (fmupd x n' m)"
    by (auto split: sum.splits)
  show ?case
  proof (cases "y = x")
    case True
    with "3.prems"(2) q obtain n where n: "fmlookup m x = Some n" "fs_lookup n ys = Some (File c)"
      by (auto split: option.splits)
    then have "fs_lookup (case fmlookup m x of None \<Rightarrow> Dir fmempty | Some n \<Rightarrow> n) ys = Some (File c)"
      by simp
    from "3.IH" [OF mk this] have "fs_lookup n' ys = Some (File c)" .
    with fs' q True show ?thesis by simp
  next
    case False
    with "3.prems"(2) q fs' show ?thesis by (auto split: option.splits)
  qed
qed auto

lemma os_MkdirAll_keeps_dir:
  "os_MkdirAll fs p = Inr fs' \<Longrightarrow> is_dir fs q \<Longrightarrow> is_dir fs' q"
proof (induction fs p arbitrary: fs' q rule: os_MkdirAll.induct)
  case (3 m x xs)
  from "3.prems"(1) obtain n' where
    mk: "os_MkdirAll (case fmlookup m x of None \<Rightarrow> Dir fmempty | Some n \<Rightarrow> n) xs = Inr n'"
    and fs': "fs' = Dir (fmupd x n' m)"
    by (auto split: sum.splits)
  show ?case
  proof (cases q)
    case Nil
    with fs' show ?thesis by (simp add: is_dir_iff)
  next
    case (Cons y ys)
    show ?thesis
    proof (cases "y = x")
      case True
      with "3.prems"(2) Cons obtain n where n: "fmlookup m x = Some n" "is_dir n ys"
        by (auto simp: is_dir_iff split: option.splits)
      then have "is_dir (case fmlookup m x of None \<Rightarrow> Dir fmempty | Some n \<Rightarrow> n) ys"
        by simp
      from "3.IH" [OF mk this] have "is_dir n' ys" .
      with fs' Cons True show ?thesis by (simp add: is_dir_iff)
    next
      case False
      with "3.prems"(2) Cons fs' show ?thesis by (auto simp: is_dir_iff split: option.splits)
    qed
  qed
qed (auto simp: is_dir_iff)

lemma os_MkdirAll_keeps_absent:
  "os_MkdirAll fs p = Inr fs' \<Longrightarrow> fs_lookup fs q = None \<Longrightarrow> \<not> prefix q p \<Longrightarrow>
   fs_lookup fs' q = None"
proof (induction fs p arbitrary: fs' q rule: os_MkdirAll.induct)
  case (3 m x xs)
  from "3.prems"(2) obtain y ys where q: "q = y # ys" by (cases q) auto
  from "3.prems"(1) obtain n' where
    mk: "os_MkdirAll (case fmlookup m x of None \<Rightarrow> Dir fmempty | Some n \<Rightarrow> n) xs = Inr n'"
    and fs': "fs' = Dir (fmupd x n' m)"
    by (auto split: sum.splits)
  show ?case
  proof (cases "y = x")
    case True
    with "3.prems"(3) q have np: "\<not> prefix ys xs" by simp
    then have ys: "ys \<noteq> []" by auto
    have "fs_lookup (case fmlookup m x of None \<Rightarrow> Dir fmempty | Some n \<Rightarrow> n) ys = None"
      using "3.prems"(2) q True ys by (cases ys) (auto split: option.splits)
    from "3.IH" [OF mk this np] have "fs_lookup n' ys = None" .
    with fs' q True show ?thesis by simp
  next
    case False
    with "3.prems"(2) q fs' show ?thesis by (auto split: option.splits)
  qed
qed auto

lemma os_MkdirAll_makes_dir: "os_MkdirAll fs p = Inr fs' \<Longrightarrow> is_dir fs' p"
  using os_MkdirAll_is_dir by (auto simp: is_dir_iff)

lemma os_Stat_under_file:
  "fs_lookup fs p = Some (File c) \<Longrightarrow> q \<noteq> [] \<Longrightarrow> os_Stat fs (p @ q) = Inl ENOTDIR"
  by (cases q) (auto simp: os_Stat_append)

lemma os_Create_fresh:
  "os_Create fs p = Inr fs' \<Longrightarrow> fs' = fs_put fs p (File '''') \<and> is_dir fs (filepath_Dir p)"
  by (auto simp: os_Create_def is_dir_iff os_Stat_Inr_iff split: if_splits sum.splits node.splits)

lemma strict_prefix_butlast: "prefix p q \<Longrightarrow> p \<noteq> q \<Longrightarrow> prefix p (butlast q)"
proof -
  assume "prefix p q" "p \<noteq> q"
  then obtain s where q: "q = p @ s" and "s \<noteq> []" by (auto simp: prefix_def)
  then have "butlast q = p @ butlast s" by (simp add: butlast_append)
  then show ?thesis by simp
qed

lemma os_MkdirAll_not_through_file:
  assumes "os_MkdirAll fs p = Inr fs'" "fs_lookup fs q = Some (File c)"
  shows "\<not> prefix q p"
proof
  assume "prefix q p"
  then obtain s where p: "p = q @ s" by (auto simp: prefix_def)
  from os_MkdirAll_keeps_file [OF assms] have f: "fs_lookup fs' q = Some (File c)" .
  from os_MkdirAll_is_dir [OF assms(1)] obtain m where "fs_lookup fs' (q @ s) = Some (Dir m)"
    using p by auto
  with f have "fs_lookup (File c) s = Some (Dir m)" by (simp add: fs_lookup_append)
  then show False by (cases s) auto
qed

lemma CopyFile_success:
  assumes ok: "CopyFile source target fs = (None, fs')"
    and t: "fs_lookup fs target = None" and s: "fs_lookup fs source = Some n"
  shows "\<exists>c fs1. n = File c \<and> os_MkdirAll fs (filepath_Dir target) = Inr fs1 \<and>
           fs' = fs_put fs1 target (File c) \<and> fs_lookup fs1 source = Some (File c) \<and>
           fs_lookup fs1 target = None \<and> is_dir fs1 (filepath_Dir target) \<and>
           fs_lookup fs' source = Some (File c) \<and> fs_lookup fs' target = Some (File c)"
proof -
  from ok obtain fs1 where mk: "os_MkdirAll fs (filepath_Dir target) = Inr fs1"
    by (cases "os_MkdirAll fs (filepath_Dir target)") (auto simp: CopyFile_def)
  from ok mk obtain sourceF where st: "os_Stat fs1 source = Inr sourceF"
    by (cases "os_Stat fs1 source") (auto simp: CopyFile_def)
  from ok mk st obtain fs2 where cr: "os_Create fs1 target = Inr fs2"
    by (cases "os_Create fs1 target") (auto simp: CopyFile_def)
  from ok mk st cr obtain c where rd: "fs_lookup fs2 source = Some (File c)"
    and fs': "fs' = fs_put fs2 target (File (copy_chunks c 0 []))"
    by (auto simp: CopyFile_def split: option.splits node.splits)
  from os_Create_fresh [OF cr] have fs2: "fs2 = fs_put fs1 target (File [])"
    and d1: "is_dir fs1 (filepath_Dir target)" by auto
  have nts: "\<not> prefix target source"
  proof
    assume "prefix target source"
    then obtain q where "source = target @ q" by (auto simp: prefix_def)
    with s obtain n' where "fs_lookup fs target = Some n'"
      using fs_lookup_prefix_exists by blast
    with t show False by simp
  qed
  have ne: "source \<noteq> target" using s t by auto
  have t1: "fs_lookup fs1 target = None"
  proof (rule os_MkdirAll_keeps_absent [OF mk t])
    show "\<not> prefix target (filepath_Dir target)"
      unfolding filepath_Dir_def using t by (intro not_prefix_butlast) auto
  qed
  show ?thesis
  proof (cases n)
    case (Dir m)
    with s have "is_dir fs source" by (simp add: is_dir_iff)
    then have "is_dir fs1 source" by (rule os_MkdirAll_keeps_dir [OF mk])
    then have "is_dir fs2 source" unfolding fs2 using nts by (rule is_dir_put)
    with rd show ?thesis by (simp add: is_dir_iff)
  next
    case (File c0)
    with s have s0: "fs_lookup fs source = Some (File c0)" by simp
    from os_MkdirAll_not_through_file [OF mk s0]
    have "\<not> prefix source (filepath_Dir target)" .
    then have nst: "\<not> prefix source target"
      using strict_prefix_butlast [of source target] ne by (auto simp: filepath_Dir_def)
    have s1: "fs_lookup fs1 source = Some (File c0)"
      using mk s0 by (rule os_MkdirAll_keeps_file)
    then have "fs_lookup fs2 source = Some (File c0)"
      unfolding fs2 using fs_lookup_put_other [OF nts nst] by simp
    with rd have c: "c = c0" by simp
    have e: "fs' = fs_put fs1 target (File c0)"
      using fs' fs2 c by (simp add: fs_put_put copy_chunks_eq)
    have "fs_lookup fs' source = Some (File c0)"
      unfolding e using fs_lookup_put_other [OF nts nst] s1 by simp
    moreover have "fs_lookup fs' target = Some (File c0)"
      unfolding e using fs_lookup_put_self [of fs1 target "File c0" "[]"] d1
      by (simp add: filepath_Dir_def)
    ultimately show ?thesis
      using File mk e s1 t1 d1 by blast
  qed
qed

lemma UndoCopy_exact:
  assumes "fs_lookup fs1 target = None" "is_dir fs1 (filepath_Dir target)"
  shows "run_undo dev (UndoCopy target) (fs_put fs1 target (File c)) = (None, fs1)"
proof -
  have "fs_lookup (fs_put fs1 target (File c)) target = Some (File c)"
    using fs_lookup_put_self [of fs1 target "File c" "[]"] assms(2)
    by (simp add: filepath_Dir_def)
  then have "os_Stat (fs_put fs1 target (File c)) target = Inr (File c)"
    by (simp add: os_Stat_Inr_iff)
  then show ?thesis
    using fs_remove_put_id [OF assms(1)] by (simp add: os_Remove_def)
qed

lemma moveOrCopyAssertions_None:
  "moveOrCopyAssertions fs source target = None \<Longrightarrow>
   (\<exists>n. fs_lookup fs source = Some n) \<and> os_Stat fs target = Inl ENOENT \<and>
   fs_lookup fs target = None"
  by (auto simp: moveOrCopyAssertions_def IsNotExist_def os_Stat_Inr_iff
      os_Stat_Inl_iff [symmetric] split: sum.splits if_splits)

lemma MoveOrCopy_copy_fallback:
  assumes ok: "MoveOrCopy dev source target (r, fs) = (None, r', fs')"
    and mv: "fst (move dev source target (r, fs)) \<noteq> None"
  shows "\<exists>c fs1. fs_lookup fs source = Some (File c) \<and> fs_lookup fs' source = Some (File c) \<and>
           fs_lookup fs' target = Some (File c) \<and>
           r' = r\<lparr>undoOperations := undoOperations r @ [UndoCopy target]\<rparr> \<and>
           os_MkdirAll fs (filepath_Dir target) = Inr fs1 \<and>
           fs' = fs_put fs1 target (File c) \<and>
           run_undo dev (UndoCopy target) fs' = (None, fs1) \<and>
           fs_lookup fs1 source = Some (File c) \<and> fs_lookup fs1 target = None"
proof -
  from ok have as: "moveOrCopyAssertions fs source target = None"
    by (cases "moveOrCopyAssertions fs source target") (auto simp: MoveOrCopy_def)
  from moveOrCopyAssertions_None [OF as] obtain n where
    s: "fs_lookup fs source = Some n" and t: "fs_lookup fs target = None" by blast
  obtain e w where m: "move dev source target (r, fs) = (Some e, w)"
    using mv by (cases "move dev source target (r, fs)") auto
  with ok as have cp: "copy source target w = (None, r', fs')"
    by (auto simp: MoveOrCopy_def split: prod.splits option.splits)
  show ?thesis
  proof (cases "os_MkdirAll fs (filepath_Dir target)")
    case (Inl e')
    with m have "w = (r, fs)" by (simp add: move_def)
    with cp Inl show ?thesis by (simp add: copy_def CopyFile_def)
  next
    case (Inr fs1)
    with m have w: "w = (r, fs1)"
      by (auto simp: move_def split: sum.splits)
    from cp w have cf: "CopyFile source target fs1 = (None, fs')"
      and r': "r' = r\<lparr>undoOperations := undoOperations r @ [UndoCopy target]\<rparr>"
      by (auto simp: copy_def split: prod.splits option.splits)
    have t1: "fs_lookup fs1 target = None"
    proof (rule os_MkdirAll_keeps_absent [OF Inr t])
      show "\<not> prefix target (filepath_Dir target)"
        unfolding filepath_Dir_def using t by (intro not_prefix_butlast) auto
    qed
    have "\<exists>n1. fs_lookup fs1 source = Some n1"
    proof (cases n)
      case (File c0)
      with s Inr show ?thesis using os_MkdirAll_keeps_file by blast
    next
      case (Dir m0)
      with s have "is_dir fs source" by (simp add: is_dir_iff)
      then have "is_dir fs1 source" by (rule os_MkdirAll_keeps_dir [OF Inr])
      then show ?thesis by (auto simp: is_dir_iff)
    qed
    then obtain n1 where s1: "fs_lookup fs1 source = Some n1" by blast
    from CopyFile_success [OF cf t1 s1] obtain c fs1' where
      n1: "n1 = File c" and mk': "os_MkdirAll fs1 (filepath_Dir target) = Inr fs1'"
      and e: "fs' = fs_put fs1' target (File c)"
      and ls: "fs_lookup fs' source = Some (File c)" and lt: "fs_lookup fs' target = Some (File c)"
      by blast
    have d1: "is_dir fs1 (filepath_Dir target)"
      using Inr by (rule os_MkdirAll_makes_dir)
    then have "fs1' = fs1" using mk' by (simp add: os_MkdirAll_id)
    with e have e1: "fs' = fs_put fs1 target (File c)" by simp
    have s0: "fs_lookup fs source = Some (File c)"
    proof (cases n)
      case (File c0)
      with s Inr have "fs_lookup fs1 source = Some (File c0)"
        using os_MkdirAll_keeps_file by blast
      with s1 n1 File s show ?thesis by simp
    next
      case (Dir m0)
      with s have "is_dir fs source" by (simp add: is_dir_iff)
      then have "is_dir fs1 source" by (rule os_MkdirAll_keeps_dir [OF Inr])
      with s1 n1 show ?thesis by (simp add: is_dir_iff)
    qed
    have u: "run_undo dev (UndoCopy target) fs' = (None, fs1)"
      unfolding e1 using t1 d1 by (rule UndoCopy_exact)
    from s0 ls lt r' Inr e1 u s1 n1 t1 show ?thesis by blast
  qed
qed


lemma size_child: "fmlookup m k = Some n \<Longrightarrow> size n < size (Dir m)"
proof -
  assume a: "fmlookup m k = Some n"
  let ?f = "\<lambda>x. Suc (case x of (a, x) \<Rightarrow> size x)"
  have "(k, n) \<in> fset (fset_of_fmap m)"
    using a by simp
  then have "?f (k, n) \<le> sum ?f (fset (fset_of_fmap m))"
    by (intro member_le_sum) auto
  then show ?thesis by simp
qed


lemma Readdirnames_Nil_iff: "Readdirnames (Dir m) = [] \<longleftrightarrow> m = fmempty"
proof
  assume "Readdirnames (Dir m) = []"
  then have "fset (fmdom m) = {}"
    by (simp add: sorted_list_of_fset.rep_eq)
  then have "fmdom m = {||}" by (simp add: bot_fset.rep_eq fset_inject [symmetric])
  then show "m = fmempty" by (intro fmap_ext) (auto simp: fmdom_notD)
next
  assume "m = fmempty"
  then show "Readdirnames (Dir m) = []" by (simp add: sorted_list_of_fset.rep_eq)
qed


section \<open>Delete\<close>




text \<open>
  Claim C3.  Two \<^verbatim>\<open>Delete\<close> calls on existing paths should be backed up in two
  different slots of the backup directory, the counter \<^verbatim>\<open>backupFileCounter\<close>
  growing with each backup.  Nothing in the program advances the counter:
  \<^verbatim>\<open>getTempFilePath\<close> reads it and \<^verbatim>\<open>Delete\<close> leaves it as it is.  Deleting
  \<^verbatim>\<open>a/x\<close> and then \<^verbatim>\<open>b/x\<close> uses the slot \<^verbatim>\<open>backup/0_x\<close> twice; the second
  backup replaces the first, whose bytes are lost.
\<close>

theorem Delete_twice_same_slot:
  "(case Delete dev0 [''b'', ''x''] (snd (Delete dev0 [''a'', ''x''] (r0, fs0))) of
      (e, r, fs) \<Rightarrow>
        e = None \<and>
        undoOperations r =
          [UndoDelete [''backup'', ''0_x''] [''a'', ''x''],
           UndoDelete [''backup'', ''0_x''] [''b'', ''x'']] \<and>
        backupFileCounter r = 0 \<and>
        fs_lookup fs [''backup'', ''0_x''] = Some (File ''2'') \<and>
        Readdirnames (the (fs_lookup fs [''backup''])) = [''0_x''])"
  by (simp add: Delete_def fs0_def r0_def dev0_def getTempFilePath_def Itoa_0
      filepath_Split_file_def ForceMoveFile_def os_Rename_def filepath_Dir_def IsNotExist_def
      Let_def sorted_list_of_fset.rep_eq)

section \<open>MkdirAll\<close>










section \<open>MoveOrCopy\<close>

text \<open>
  Claim C10.  When \<^verbatim>\<open>MoveOrCopy\<close> succeeds although its \<^verbatim>\<open>move\<close> failed, the
  source is a regular file that is still at its place with the same bytes, the target
  (which did not exist) holds a copy of them, and the one inverse action recorded is
  the removal of the target.  Running that inverse takes away the target and nothing
  else: what remains is the tree from before the call together with the parent
  directories \<^verbatim>\<open>os.MkdirAll\<close> made for the target.
\<close>

theorem MoveOrCopy_copy_fallback_keeps_source:
  assumes "MoveOrCopy dev source target (r, fs) = (None, r', fs')"
    and "fst (move dev source target (r, fs)) \<noteq> None"
  shows "\<exists>c. fs_lookup fs source = Some (File c) \<and> fs_lookup fs target = None \<and>
           fs_lookup fs' source = Some (File c) \<and> fs_lookup fs' target = Some (File c) \<and>
           undoOperations r' = undoOperations r @ [UndoCopy target] \<and>
           run_undo dev (UndoCopy target) fs' = (None, fs_remove fs' target) \<and>
           fs_lookup (fs_remove fs' target) source = Some (File c) \<and>
           os_MkdirAll fs (filepath_Dir target) = Inr (fs_remove fs' target)"
proof -
  from MoveOrCopy_copy_fallback [OF assms] obtain c fs1 where
    a: "fs_lookup fs source = Some (File c)" "fs_lookup fs' source = Some (File c)"
       "fs_lookup fs' target = Some (File c)"
       "r' = r\<lparr>undoOperations := undoOperations r @ [UndoCopy target]\<rparr>"
       "os_MkdirAll fs (filepath_Dir target) = Inr fs1"
       "fs' = fs_put fs1 target (File c)"
       "run_undo dev (UndoCopy target) fs' = (None, fs1)"
       "fs_lookup fs1 source = Some (File c)" "fs_lookup fs1 target = None"
    by blast
  have rm: "fs_remove fs' target = fs1"
    using a(6) a(9) by (simp add: fs_remove_put_id)
  have "fs_lookup fs target = None"
    using assms(1) moveOrCopyAssertions_None [of fs source target]
    by (cases "moveOrCopyAssertions fs source target") (auto simp: MoveOrCopy_def)
  with a rm show ?thesis by auto
qed


theorem MoveOrCopy_copy_fallback_keeps_source_witness:
  "fst (MoveOrCopy dev_mnt [''a'', ''x''] [''mnt'', ''out'', ''x''] (r0, fs_mnt)) = None \<and>
   fst (move dev_mnt [''a'', ''x''] [''mnt'', ''out'', ''x''] (r0, fs_mnt)) \<noteq> None \<and>
   (\<exists>c. fs_lookup fs_mnt [''a'', ''x''] = Some (File c) \<and>
        fs_lookup (snd (snd (MoveOrCopy dev_mnt [''a'', ''x''] [''mnt'', ''out'', ''x''] (r0, fs_mnt))))
          [''a'', ''x''] = Some (File c) \<and>
        fs_lookup (snd (snd (MoveOrCopy dev_mnt [''a'', ''x''] [''mnt'', ''out'', ''x''] (r0, fs_mnt))))
          [''mnt'', ''out'', ''x''] = Some (File c) \<and>
        undoOperations (fst (snd (MoveOrCopy dev_mnt [''a'', ''x''] [''mnt'', ''out'', ''x''] (r0, fs_mnt))))
          = undoOperations r0 @ [UndoCopy [''mnt'', ''out'', ''x'']])"
proof -
  let ?X = "MoveOrCopy dev_mnt [''a'', ''x''] [''mnt'', ''out'', ''x''] (r0, fs_mnt)"
  have a: "fst ?X = None"
    by (simp add: MoveOrCopy_def moveOrCopyAssertions_def fs_mnt_def r0_def dev_mnt_def move_def
        copy_def CopyFile_def os_Rename_def os_Create_def filepath_Dir_def IsNotExist_def
        copy_chunks_eq PassError_def)
  have b: "fst (move dev_mnt [''a'', ''x''] [''mnt'', ''out'', ''x''] (r0, fs_mnt)) \<noteq> None"
    by (simp add: fs_mnt_def r0_def dev_mnt_def move_def os_Rename_def filepath_Dir_def)
  from a have c: "?X = (None, fst (snd ?X), snd (snd ?X))"
    by (metis prod.collapse)
  from MoveOrCopy_copy_fallback_keeps_source [OF c b] obtain c0 where
    "fs_lookup fs_mnt [''a'', ''x''] = Some (File c0)"
    "fs_lookup (snd (snd ?X)) [''a'', ''x''] = Some (File c0)"
    "fs_lookup (snd (snd ?X)) [''mnt'', ''out'', ''x''] = Some (File c0)"
    "undoOperations (fst (snd ?X)) = undoOperations r0 @ [UndoCopy [''mnt'', ''out'', ''x'']]"
    by blast
  with a b show ?thesis
    by (intro conjI exI [of _ c0])
qed

section \<open>Undo\<close>
















section \<open>MoveoOrCopyDir\<close>

text \<open>
  Claim C7.  \<^verbatim>\<open>MoveoOrCopyDir\<close> fails with the error
  \<^verbatim>\<open>assertEmptyOrNewDirError\<close>, the transaction and the file system unchanged,
  whenever the target exists and is a regular file or a directory with entries.  When
  the target does not exist or is an empty directory the call is the walk over the
  source; in every other case it fails with that error and changes nothing.
\<close>

theorem MoveoOrCopyDir_target_guard:
  "(fs_lookup fs target = Some n \<and> (\<not> IsDir n \<or> Readdirnames n \<noteq> []) \<longrightarrow>
      MoveoOrCopyDir fuel dev source target (r, fs) =
        Some (Some (WrappedErrorf assertEmptyOrNewDirError [P target]), r, fs)) \<and>
   (os_Stat fs target = Inl ENOENT \<or> fs_lookup fs target = Some (Dir fmempty) \<longrightarrow>
      MoveoOrCopyDir fuel dev source target (r, fs) =
        (case PostorderWalkDir fuel source (MoveoOrCopyDir_walkFunc dev source target) (r, fs) of
           None \<Rightarrow> None
         | Some (Some err, w) \<Rightarrow> Some (Some (PassError err), w)
         | Some (None, w) \<Rightarrow> Some (None, w))) \<and>
   (\<not> (os_Stat fs target = Inl ENOENT \<or> fs_lookup fs target = Some (Dir fmempty)) \<longrightarrow>
      (\<exists>args cause. MoveoOrCopyDir fuel dev source target (r, fs) =
         Some (Some (Wrapped assertEmptyOrNewDirError args cause), r, fs)))"
proof (intro conjI impI)
  assume a: "fs_lookup fs target = Some n \<and> (\<not> IsDir n \<or> Readdirnames n \<noteq> [])"
  then have st: "os_Stat fs target = Inr n" by (simp add: os_Stat_Inr_iff)
  show "MoveoOrCopyDir fuel dev source target (r, fs) =
        Some (Some (WrappedErrorf assertEmptyOrNewDirError [P target]), r, fs)"
  proof (cases "IsDir n")
    case False
    with st show ?thesis by (simp add: MoveoOrCopyDir_def)
  next
    case True
    with a have "Readdirnames n \<noteq> []" by simp
    with st True show ?thesis by (simp add: MoveoOrCopyDir_def IsDirEmpty_def)
  qed
next
  assume "os_Stat fs target = Inl ENOENT \<or> fs_lookup fs target = Some (Dir fmempty)"
  then show "MoveoOrCopyDir fuel dev source target (r, fs) =
        (case PostorderWalkDir fuel source (MoveoOrCopyDir_walkFunc dev source target) (r, fs) of
           None \<Rightarrow> None
         | Some (Some err, w) \<Rightarrow> Some (Some (PassError err), w)
         | Some (None, w) \<Rightarrow> Some (None, w))"
  proof
    assume "os_Stat fs target = Inl ENOENT"
    then show ?thesis by (simp add: MoveoOrCopyDir_def IsNotExist_def)
  next
    assume "fs_lookup fs target = Some (Dir fmempty)"
    then have "os_Stat fs target = Inr (Dir fmempty)" by (simp add: os_Stat_Inr_iff)
    then show ?thesis
      by (simp add: MoveoOrCopyDir_def IsDirEmpty_def sorted_list_of_fset.rep_eq)
  qed
next
  assume na: "\<not> (os_Stat fs target = Inl ENOENT \<or> fs_lookup fs target = Some (Dir fmempty))"
  show "\<exists>args cause. MoveoOrCopyDir fuel dev source target (r, fs) =
         Some (Some (Wrapped assertEmptyOrNewDirError args cause), r, fs)"
  proof (cases "os_Stat fs target")
    case (Inl e)
    with na have "e \<noteq> ENOENT" by auto
    with Inl show ?thesis
      by (simp add: MoveoOrCopyDir_def IsNotExist_def WrapErrorf_def)
  next
    case (Inr stat)
    show ?thesis
    proof (cases stat)
      case (File c)
      with Inr show ?thesis by (simp add: MoveoOrCopyDir_def WrappedErrorf_def)
    next
      case (Dir m)
      with Inr na have "m \<noteq> fmempty" by (auto simp: os_Stat_Inr_iff)
      then have "Readdirnames (Dir m) \<noteq> []" by (simp only: Readdirnames_Nil_iff not_False_eq_True)
      with Inr Dir show ?thesis
        by (simp add: MoveoOrCopyDir_def IsDirEmpty_def WrappedErrorf_def)
    qed
  qed
qed



theorem MoveoOrCopyDir_target_guard_witness:
  "Readdirnames (the (fs_lookup fs_tree [''src''])) \<noteq> [] \<and>
   MoveoOrCopyDir 5 dev0 [''out''] [''src''] (r0, fs_tree) =
     Some (Some (WrappedErrorf assertEmptyOrNewDirError [P [''src'']]), r0, fs_tree) \<and>
   fs_lookup fs_tree [''out''] = Some (Dir fmempty) \<and>
   MoveoOrCopyDir 5 dev0 [''src''] [''out''] (r0, fs_tree) =
     (case PostorderWalkDir 5 [''src''] (MoveoOrCopyDir_walkFunc dev0 [''src''] [''out''])
             (r0, fs_tree) of
        None \<Rightarrow> None
      | Some (Some err, w) \<Rightarrow> Some (Some (PassError err), w)
      | Some (None, w) \<Rightarrow> Some (None, w)) \<and>
   fst (the (MoveoOrCopyDir 5 dev0 [''src''] [''out''] (r0, fs_tree))) = None \<and>
   \<not> (os_Stat fs_tree [''src'', ''a.txt''] = Inl ENOENT \<or>
       fs_lookup fs_tree [''src'', ''a.txt''] = Some (Dir fmempty)) \<and>
   (\<exists>args cause. MoveoOrCopyDir 5 dev0 [''out''] [''src'', ''a.txt''] (r0, fs_tree) =
      Some (Some (Wrapped assertEmptyOrNewDirError args cause), r0, fs_tree))"
proof -
  let ?n = "the (fs_lookup fs_tree [''src''])"
  have a: "fs_lookup fs_tree [''src''] = Some ?n"
    by (simp add: fs_tree_def)
  have b: "Readdirnames ?n \<noteq> []"
    by code_simp
  have c: "fs_lookup fs_tree [''out''] = Some (Dir fmempty)"
    by (simp add: fs_tree_def)
  have d: "\<not> (os_Stat fs_tree [''src'', ''a.txt''] = Inl ENOENT \<or>
       fs_lookup fs_tree [''src'', ''a.txt''] = Some (Dir fmempty))"
    by (simp add: fs_tree_def)
  have e: "fst (the (MoveoOrCopyDir 5 dev0 [''src''] [''out''] (r0, fs_tree))) = None"
    by code_simp
  note t1 = MoveoOrCopyDir_target_guard [of fs_tree "[''src'']" ?n 5 dev0 "[''out'']" r0]
  note t2 = MoveoOrCopyDir_target_guard [of fs_tree "[''out'']" ?n 5 dev0 "[''src'']" r0]
  note t3 = MoveoOrCopyDir_target_guard [of fs_tree "[''src'', ''a.txt'']" ?n 5 dev0 "[''out'']" r0]
  from t1 a b have f: "MoveoOrCopyDir 5 dev0 [''out''] [''src''] (r0, fs_tree) =
     Some (Some (WrappedErrorf assertEmptyOrNewDirError [P [''src'']]), r0, fs_tree)"
    by blast
  from t2 c have g: "MoveoOrCopyDir 5 dev0 [''src''] [''out''] (r0, fs_tree) =
     (case PostorderWalkDir 5 [''src''] (MoveoOrCopyDir_walkFunc dev0 [''src''] [''out''])
             (r0, fs_tree) of
        None \<Rightarrow> None
      | Some (Some err, w) \<Rightarrow> Some (Some (PassError err), w)
      | Some (None, w) \<Rightarrow> Some (None, w))"
    by blast
  from t3 d have h: "\<exists>args cause. MoveoOrCopyDir 5 dev0 [''out''] [''src'', ''a.txt''] (r0, fs_tree) =
      Some (Some (Wrapped assertEmptyOrNewDirError args cause), r0, fs_tree)"
    by blast
  from b f c g e d h show ?thesis by blast
qed

end
